theory Spec2Isabelle
  imports Complex_Main "HOL-Library.Char_ord" "HOL-Library.List_Lexorder" "HOL-Library.AList"
    "HOL-Library.Multiset"
begin

section \<open>JavaScript values held by the form fields\<close>

text \<open>
  The fields \<open>amount\<close>, \<open>initialBalance\<close>, \<open>targetBalance\<close>, \<open>plannedIncome\<close> and
  \<open>plannedExpense\<close> hold whatever the number inputs deliver (strings) or what a caller
  stores there (numbers). Numbers are modelled as integers: the amounts are whole yen, on
  which the arithmetic of the source is exact. \<open>None\<close> stands for \<open>NaN\<close>.
\<close>

datatype jsval = JNum int | JStr string

fun truthy :: "jsval \<Rightarrow> bool" where
  "truthy (JNum n) = (n \<noteq> 0)"
| "truthy (JStr s) = (s \<noteq> [])"

definition isDigit :: "char \<Rightarrow> bool" where
  "isDigit c = (CHR ''0'' \<le> c \<and> c \<le> CHR ''9'')"

definition digitVal :: "char \<Rightarrow> int" where
  "digitVal c = int (of_char c) - 48"

definition decimal :: "string \<Rightarrow> int" where
  "decimal s = foldl (\<lambda>n c. 10 * n + digitVal c) 0 s"

definition isSpace :: "char \<Rightarrow> bool" where
  "isSpace c = (c \<in> set [CHR '' '', CHR 0x09, CHR 0x0A, CHR 0x0B, CHR 0x0C, CHR 0x0D])"

definition trim :: "string \<Rightarrow> string" where
  "trim s = rev (dropWhile isSpace (rev (dropWhile isSpace s)))"

definition digits :: "string \<Rightarrow> int option" where
  "digits s = (if s \<noteq> [] \<and> list_all isDigit s then Some (decimal s) else None)"

text \<open>
  \<open>Number(s)\<close> on a string: surrounding white space is dropped, the empty string is 0, a
  signed run of decimal digits is its value. Every other string is read as \<open>NaN\<close>; the
  fractional, exponent and radix-prefixed literals of JavaScript lie outside the integer
  model.
\<close>

definition StringToNumber :: "string \<Rightarrow> int option" where
  "StringToNumber s =
     (case trim s of
        [] \<Rightarrow> Some 0
      | c # cs \<Rightarrow>
          if c = CHR ''-'' then map_option uminus (digits cs)
          else if c = CHR ''+'' then digits cs
          else digits (c # cs))"

fun Number :: "jsval \<Rightarrow> int option" where
  "Number (JNum n) = Some n"
| "Number (JStr s) = StringToNumber s"

text \<open>\<open>Number(v) || 0\<close>: \<open>NaN\<close> and 0 are both falsy.\<close>

definition numOr0 :: "jsval \<Rightarrow> int" where
  "numOr0 v = (case Number v of None \<Rightarrow> 0 | Some n \<Rightarrow> if n = 0 then 0 else n)"

text \<open>\<open>Number(v) || null\<close>.\<close>

definition numOrNull :: "jsval \<Rightarrow> int option" where
  "numOrNull v = (case Number v of None \<Rightarrow> None | Some n \<Rightarrow> if n = 0 then None else Some n)"

section \<open>Entries and plans\<close>

text \<open>\<open>TYPES\<close>: the two options of the type selector (income, expense).\<close>

datatype entry_type = Income | Expense

record entry =
  entry_id :: string
  date :: string
  etype :: entry_type
  category :: string
  description :: string
  amount :: jsval
  memo :: string
  receipt :: "string option"
  receiptName :: string

record plan =
  plan_id :: string
  month :: string
  targetBalance :: jsval
  plannedIncome :: jsval
  plannedExpense :: jsval

text \<open>\<open>PERIODS\<close>: the keys day, week, month, year of the period toggle.\<close>

datatype period_key = Day | Week | Month | Year

section \<open>Computed totals\<close>

text \<open>The predicate of \<open>entries.filter((r) => r.description || r.amount)\<close>.\<close>

definition is_filled :: "entry \<Rightarrow> bool" where
  "is_filled r = (description r \<noteq> [] \<or> truthy (amount r))"

definition filled :: "entry list \<Rightarrow> entry list" where
  "filled entries = filter is_filled entries"

definition totalIncome :: "entry list \<Rightarrow> int" where
  "totalIncome entries =
     foldl (\<lambda>s r. s + numOr0 (amount r)) 0 (filter (\<lambda>r. etype r = Income) (filled entries))"

definition totalExpense :: "entry list \<Rightarrow> int" where
  "totalExpense entries =
     foldl (\<lambda>s r. s + numOr0 (amount r)) 0 (filter (\<lambda>r. etype r = Expense) (filled entries))"

definition currentBalance :: "jsval \<Rightarrow> entry list \<Rightarrow> int" where
  "currentBalance initialBalance entries =
     numOr0 initialBalance + totalIncome entries - totalExpense entries"

text \<open>The three totals together, as the balance bar shows them.\<close>

record summary =
  s_totalIncome :: int
  s_totalExpense :: int
  s_currentBalance :: int

definition summarize :: "entry list \<Rightarrow> jsval \<Rightarrow> summary" where
  "summarize entries initialBalance =
     \<lparr> s_totalIncome = totalIncome entries,
       s_totalExpense = totalExpense entries,
       s_currentBalance = currentBalance initialBalance entries \<rparr>"

section \<open>Dates and period keys\<close>

text \<open>
  The \<open>Date\<close> object of the host, as far as \<open>parseWeek\<close> uses it. A time value is a
  count of milliseconds since the epoch; the host's local time zone is a fixed offset
  \<open>tza\<close> in milliseconds east of UTC (no daylight saving change between 1 January and
  the date). The day arithmetic is that of the language standard.
\<close>

definition msPerDay :: int where
  "msPerDay = 86400000"

definition DayOfTime :: "int \<Rightarrow> int" where
  "DayOfTime t = t div msPerDay"

definition DayFromYear :: "int \<Rightarrow> int" where
  "DayFromYear y = 365 * (y - 1970) + (y - 1969) div 4 - (y - 1901) div 100 + (y - 1601) div 400"

definition InLeapYear :: "int \<Rightarrow> bool" where
  "InLeapYear y = (y mod 4 = 0 \<and> (y mod 100 \<noteq> 0 \<or> y mod 400 = 0))"

definition monthLengths :: "int \<Rightarrow> int list" where
  "monthLengths y = [31, if InLeapYear y then 29 else 28, 31, 30, 31, 30, 31, 31, 30, 31, 30, 31]"

definition MakeDay :: "int \<Rightarrow> int \<Rightarrow> int \<Rightarrow> int" where
  "MakeDay year mon dt =
     (let ym = year + mon div 12; mn = nat (mon mod 12)
      in DayFromYear ym + sum_list (take mn (monthLengths ym)) + dt - 1)"

definition WeekDay :: "int \<Rightarrow> int" where
  "WeekDay t = (DayOfTime t + 4) mod 7"

definition LocalTime :: "int \<Rightarrow> int \<Rightarrow> int" where
  "LocalTime tza t = t + tza"

definition UTC :: "int \<Rightarrow> int \<Rightarrow> int" where
  "UTC tza t = t - tza"

text \<open>
  \<open>new Date(d)\<close> on a string: the date-only form \<open>YYYY-MM-DD\<close> of a calendar date, as
  a date input delivers it, is midnight UTC of that day. Every other string, the empty one
  of a cleared input included, is read as an invalid date (\<open>None\<close>).
\<close>

fun parseDate :: "string \<Rightarrow> int option" where
  "parseDate [y1, y2, y3, y4, h1, m1, m2, h2, d1, d2] =
     (if h1 = CHR ''-'' \<and> h2 = CHR ''-'' \<and> list_all isDigit [y1, y2, y3, y4, m1, m2, d1, d2]
      then
        (let y = decimal [y1, y2, y3, y4]; m = decimal [m1, m2]; d = decimal [d1, d2]
         in if 1 \<le> m \<and> m \<le> 12 \<and> 1 \<le> d \<and> d \<le> monthLengths y ! nat (m - 1)
            then Some (msPerDay * MakeDay y (m - 1) d) else None)
      else None)"
| "parseDate s = None"

text \<open>
  \<open>new Date(year, mon, dt)\<close>: local midnight; a year from 0 to 99 means 1900 + year.
\<close>

definition newDate :: "int \<Rightarrow> int \<Rightarrow> int \<Rightarrow> int \<Rightarrow> int" where
  "newDate tza year mon dt =
     (let yr = (if 0 \<le> year \<and> year \<le> 99 then 1900 + year else year)
      in UTC tza (msPerDay * MakeDay yr mon dt))"

text \<open>\<open>String(n)\<close> on an integer and \<open>padStart\<close>.\<close>

definition digitChar :: "nat \<Rightarrow> char" where
  "digitChar n = ''0123456789'' ! n"

fun natToString :: "nat \<Rightarrow> string" where
  "natToString n =
     (if n < 10 then [digitChar n] else natToString (n div 10) @ [digitChar (n mod 10)])"

declare natToString.simps [simp del]

definition String :: "int \<Rightarrow> string" where
  "String i = (if i < 0 then CHR ''-'' # natToString (nat (- i)) else natToString (nat i))"

definition padStart :: "nat \<Rightarrow> char \<Rightarrow> string \<Rightarrow> string" where
  "padStart n c s = replicate (n - length s) c @ s"

text \<open>
  \<open>YearFromTime\<close>: the largest year whose first day is not after the day of \<open>t\<close>,
  found by stepping down from a year that is not before it.
\<close>

function yearDown :: "int \<Rightarrow> int \<Rightarrow> int" where
  "yearDown day y = (if DayFromYear y \<le> day then y else yearDown day (y - 1))"
  by pat_completeness auto
termination
proof (relation "measure (\<lambda>(day, y). nat (DayFromYear y - day))")
  show "wf (measure (\<lambda>(day, y). nat (DayFromYear y - day)))"
    by simp
next
  fix day y :: int
  assume late: "\<not> DayFromYear y \<le> day"
  have a: "(y - 1 - 1969) div 4 \<le> (y - 1969) div 4"
    by (rule zdiv_mono1) simp_all
  have b: "(y - 1 - 1601) div 400 \<le> (y - 1601) div 400"
    by (rule zdiv_mono1) simp_all
  have "(y - 1901) div 100 \<le> (y - 1 - 1901 + 1 * 100) div 100"
    by (rule zdiv_mono1) simp_all
  then have c: "(y - 1901) div 100 \<le> (y - 1 - 1901) div 100 + 1"
    by simp
  have "365 * (y - 1 - 1970) + A' - B' + C' < 365 * (y - 1970) + A - B + C"
    if "A' \<le> A" and "C' \<le> C" and "B \<le> B' + 1" for A B C A' B' C' :: int
    using that by simp
  from this[OF a b c] have "DayFromYear (y - 1) < DayFromYear y"
    unfolding DayFromYear_def .
  with late show "((day, y - 1), (day, y)) \<in> measure (\<lambda>(day, y). nat (DayFromYear y - day))"
    by simp
qed

declare yearDown.simps [simp del]

definition YearFromTime :: "int \<Rightarrow> int" where
  "YearFromTime t =
     (let d = DayOfTime t in yearDown d (1970 + (if 0 \<le> d then d div 365 else d div 366)))"

definition getFullYear :: "int \<Rightarrow> int \<Rightarrow> int" where
  "getFullYear tza t = YearFromTime (LocalTime tza t)"

definition getDay :: "int \<Rightarrow> int \<Rightarrow> int" where
  "getDay tza t = WeekDay (LocalTime tza t)"

text \<open>
  \<open>parseWeek\<close>. An invalid date has the year \<open>NaN\<close> and the week \<open>NaN\<close>. The quotient
  is a real number here; the floating-point quotient of the source has the same ceiling,
  since it is either a whole number or at least 1/604800000 away from one.
\<close>

definition parseWeek :: "int \<Rightarrow> string \<Rightarrow> string" where
  "parseWeek tza d =
     (case parseDate d of
        None \<Rightarrow> ''NaN-WNaN''
      | Some dt \<Rightarrow>
          (let jan1 = newDate tza (getFullYear tza dt) 0 1;
               wk = \<lceil>(real_of_int (dt - jan1) / 86400000 + real_of_int (getDay tza jan1) + 1) / 7\<rceil>
           in String (getFullYear tza dt) @ ''-W'' @ padStart 2 (CHR ''0'') (String wk)))"

definition parseMonth :: "string \<Rightarrow> string" where
  "parseMonth d = take 7 d"

definition parseYear :: "string \<Rightarrow> string" where
  "parseYear d = take 4 d"

definition groupKey :: "int \<Rightarrow> period_key \<Rightarrow> string \<Rightarrow> string" where
  "groupKey tza per =
     (case per of Day \<Rightarrow> (\<lambda>d. d) | Week \<Rightarrow> parseWeek tza | Month \<Rightarrow> parseMonth | Year \<Rightarrow> parseYear)"

section \<open>Plans\<close>

fun findIndex :: "('a \<Rightarrow> bool) \<Rightarrow> 'a list \<Rightarrow> int" where
  "findIndex P [] = - 1"
| "findIndex P (x # xs) =
     (if P x then 0 else (let i = findIndex P xs in if i < 0 then - 1 else i + 1))"

text \<open>
  \<open>addPlan\<close> returns the plan list that \<open>setPlans\<close> stores; a rejected form leaves the
  list as it is. The reset of the form and the toast are left out.
\<close>

definition addPlan :: "plan \<Rightarrow> plan list \<Rightarrow> plan list" where
  "addPlan planForm plans =
     (if \<not> truthy (targetBalance planForm) \<and> \<not> truthy (plannedIncome planForm)
         \<and> \<not> truthy (plannedExpense planForm)
      then plans
      else
        (let existing = findIndex (\<lambda>p. month p = month planForm) plans
         in if existing \<ge> 0
            then map (\<lambda>(pl, i). if int i = existing then planForm\<lparr>plan_id := plan_id pl\<rparr> else pl)
                   (zip plans [0..<length plans])
            else plans @ [planForm]))"

text \<open>The delete button of a plan row: \<open>prev.filter((x) => x.id !== p.id)\<close>.\<close>

definition deletePlan :: "string \<Rightarrow> plan list \<Rightarrow> plan list" where
  "deletePlan pid plans = filter (\<lambda>x. plan_id x \<noteq> pid) plans"

section \<open>Plan versus actual\<close>

text \<open>
  One row of \<open>planVsActual\<close>. The source labels the columns in Japanese; the fields
  here carry the names of the specification.
\<close>

record variance_row =
  v_month :: string
  v_plannedIncome :: int
  v_actualIncome :: int
  v_plannedExpense :: int
  v_actualExpense :: int
  v_targetBalance :: int
  v_incomeVariance :: int
  v_expenseVariance :: int

definition planRow :: "entry list \<Rightarrow> plan \<Rightarrow> variance_row" where
  "planRow entries p =
     (let monthEntries = filter (\<lambda>e. parseMonth (date e) = month p) (filled entries);
          actualIncome = foldl (\<lambda>s e. s + numOr0 (amount e)) 0
                           (filter (\<lambda>e. etype e = Income) monthEntries);
          actualExpense = foldl (\<lambda>s e. s + numOr0 (amount e)) 0
                            (filter (\<lambda>e. etype e = Expense) monthEntries)
      in \<lparr> v_month = month p,
           v_plannedIncome = numOr0 (plannedIncome p),
           v_actualIncome = actualIncome,
           v_plannedExpense = numOr0 (plannedExpense p),
           v_actualExpense = actualExpense,
           v_targetBalance = numOr0 (targetBalance p),
           v_incomeVariance = actualIncome - numOr0 (plannedIncome p),
           v_expenseVariance = actualExpense - numOr0 (plannedExpense p) \<rparr>)"

text \<open>
  \<open>sort\<close> with a comparator is stable, as \<open>sort_key\<close> is. \<open>localeCompare\<close> is
  modelled as the comparison by character codes, with which it agrees on the strings of
  digits and hyphens that months and dates are.
\<close>

definition planVsActual :: "plan list \<Rightarrow> entry list \<Rightarrow> variance_row list" where
  "planVsActual plans entries =
     (if plans = [] then [] else sort_key v_month (map (planRow entries) plans))"

section \<open>Chart data\<close>

text \<open>
  \<open>groups\<close> is an object used as a dictionary: an association list in insertion order.
  The keys are period keys of dates, none of which is a property that an empty object
  inherits.
\<close>

record group =
  income :: int
  expense :: int

type_synonym groups = "(string \<times> group) list"

text \<open>The body of \<open>sorted.forEach\<close>.\<close>

definition addEntry :: "(string \<Rightarrow> string) \<Rightarrow> groups \<Rightarrow> entry \<Rightarrow> groups" where
  "addEntry gk gs e =
     (let k = gk (date e);
          g = (case map_of gs k of None \<Rightarrow> \<lparr> income = 0, expense = 0 \<rparr> | Some g \<Rightarrow> g)
      in AList.update k
           (if etype e = Income then g\<lparr> income := income g + numOr0 (amount e) \<rparr>
            else g\<lparr> expense := expense g + numOr0 (amount e) \<rparr>) gs)"

text \<open>
  \<open>groups[k]\<close> for a key taken from \<open>Object.keys(groups)\<close>; the key is always present
  (lemma \<open>groupAt_keys\<close> below), so the second case is never taken.
\<close>

definition groupAt :: "groups \<Rightarrow> string \<Rightarrow> group" where
  "groupAt gs k = (case map_of gs k of Some g \<Rightarrow> g | None \<Rightarrow> \<lparr> income = 0, expense = 0 \<rparr>)"

text \<open>
  One row of the chart. The source labels the last four columns in Japanese; the fields
  here carry the names of the specification.
\<close>

record chart_row =
  period :: string
  balance :: int
  r_income :: int
  r_expense :: int
  planBalance :: "int option"

text \<open>\<open>keys.map\<close> with the running \<open>balance\<close> that its callback updates.\<close>

fun chartRows :: "plan list \<Rightarrow> groups \<Rightarrow> int \<Rightarrow> string list \<Rightarrow> chart_row list" where
  "chartRows plans gs bal [] = []"
| "chartRows plans gs bal (k # ks) =
     (let bal' = bal + (income (groupAt gs k) - expense (groupAt gs k))
      in \<lparr> period = k,
           balance = bal',
           r_income = income (groupAt gs k),
           r_expense = expense (groupAt gs k),
           planBalance = (case find (\<lambda>p. month p = k) plans of
                            Some p \<Rightarrow> numOrNull (targetBalance p) | None \<Rightarrow> None) \<rparr>
         # chartRows plans gs bal' ks)"

text \<open>
  The chart data for the host offset \<open>tza\<close>, the entries, the selected period, the
  initial balance and the plans. \<open>Object.keys(groups).sort()\<close> orders the keys by
  character code.
\<close>

definition balanceChartData ::
  "int \<Rightarrow> entry list \<Rightarrow> period_key \<Rightarrow> jsval \<Rightarrow> plan list \<Rightarrow> chart_row list" where
  "balanceChartData tza entries per initialBalance plans =
     (if filled entries = [] then []
      else
        (let sorted = sort_key date (filled entries);
             gs = foldl (addEntry (groupKey tza per)) [] sorted;
             keys = sort (map fst gs)
         in chartRows plans gs (numOr0 initialBalance) keys))"

section \<open>Quantities used to state the properties\<close>

text \<open>
  The sums that the properties below speak about, written over the entry list directly:
  the income and the expense of the entries of one period key, the signed amount of an
  entry, and the chart row of a period key as the specification describes it.
\<close>

definition bucketIncome :: "(string \<Rightarrow> string) \<Rightarrow> string \<Rightarrow> entry list \<Rightarrow> int" where
  "bucketIncome gk k es =
     sum_list (map (\<lambda>e. numOr0 (amount e)) (filter (\<lambda>e. gk (date e) = k \<and> etype e = Income) es))"

definition bucketExpense :: "(string \<Rightarrow> string) \<Rightarrow> string \<Rightarrow> entry list \<Rightarrow> int" where
  "bucketExpense gk k es =
     sum_list (map (\<lambda>e. numOr0 (amount e)) (filter (\<lambda>e. gk (date e) = k \<and> etype e = Expense) es))"

definition signedAmount :: "entry \<Rightarrow> int" where
  "signedAmount e = (if etype e = Income then numOr0 (amount e) else - numOr0 (amount e))"

definition rowFor ::
  "(string \<Rightarrow> string) \<Rightarrow> jsval \<Rightarrow> plan list \<Rightarrow> entry list \<Rightarrow> string \<Rightarrow> chart_row" where
  "rowFor gk b plans es k =
     \<lparr> period = k,
       balance = numOr0 b + sum_list (map signedAmount (filter (\<lambda>e. gk (date e) \<le> k) es)),
       r_income = bucketIncome gk k es,
       r_expense = bucketExpense gk k es,
       planBalance = (case find (\<lambda>p. month p = k) plans of
                        Some p \<Rightarrow> numOrNull (targetBalance p) | None \<Rightarrow> None) \<rparr>"








text \<open>The entries and the plan of the examples of the specification.\<close>

definition lunch :: entry where
  "lunch = \<lparr> entry_id = ''e1'', date = ''2024-01-05'', etype = Expense, category = ''food'',
             description = ''lunch'', amount = JNum 1000, memo = [], receipt = None,
             receiptName = [] \<rparr>"

definition salary :: entry where
  "salary = \<lparr> entry_id = ''e2'', date = ''2024-02-10'', etype = Income, category = ''salary'',
              description = ''salary'', amount = JNum 5000, memo = [], receipt = None,
              receiptName = [] \<rparr>"

definition draft :: entry where
  "draft = \<lparr> entry_id = ''e3'', date = ''2024-03-01'', etype = Expense, category = ''food'',
             description = [], amount = JStr [], memo = [], receipt = None,
             receiptName = [] \<rparr>"

definition janPlan :: plan where
  "janPlan = \<lparr> plan_id = ''p1'', month = ''2024-01'', targetBalance = JStr [],
               plannedIncome = JNum 4000, plannedExpense = JNum 900 \<rparr>"

section \<open>Helper facts on sums\<close>

lemma foldl_add_sum_list:
  "foldl (\<lambda>s r. s + f r) a xs = (a::int) + sum_list (map f xs)"
  by (induction xs arbitrary: a) simp_all

lemma filter_kind_filled:
  "filter (\<lambda>r. etype r = k) (filled entries) = filter (\<lambda>r. is_filled r \<and> etype r = k) entries"
  by (simp add: filled_def conj_commute)

lemma totalIncome_sum:
  "totalIncome entries =
     sum_list (map (\<lambda>r. numOr0 (amount r)) (filter (\<lambda>r. is_filled r \<and> etype r = Income) entries))"
  by (simp add: totalIncome_def foldl_add_sum_list filter_kind_filled)

lemma totalExpense_sum:
  "totalExpense entries =
     sum_list (map (\<lambda>r. numOr0 (amount r)) (filter (\<lambda>r. is_filled r \<and> etype r = Expense) entries))"
  by (simp add: totalExpense_def foldl_add_sum_list filter_kind_filled)


section \<open>The groups and the rows of the chart\<close>

lemma not_Income: "(t \<noteq> Income) = (t = Expense)"
  by (cases t) simp_all

lemma groupAt_Nil: "groupAt [] k = \<lparr>income = 0, expense = 0\<rparr>"
  by (simp add: groupAt_def)

lemma groupAt_addEntry:
  "groupAt (addEntry gk gs e) k =
     (if k = gk (date e)
      then (if etype e = Income
            then (groupAt gs k)\<lparr>income := income (groupAt gs k) + numOr0 (amount e)\<rparr>
            else (groupAt gs k)\<lparr>expense := expense (groupAt gs k) + numOr0 (amount e)\<rparr>)
      else groupAt gs k)"
  by (simp add: groupAt_def addEntry_def update_conv' Let_def split: option.splits)

lemma keys_addEntry: "fst ` set (addEntry gk gs e) = insert (gk (date e)) (fst ` set gs)"
  by (simp add: addEntry_def Let_def dom_update)

lemma distinct_addEntry: "distinct (map fst gs) \<Longrightarrow> distinct (map fst (addEntry gk gs e))"
  by (simp add: addEntry_def Let_def distinct_update)

lemma groups_keys: "fst ` set (foldl (addEntry gk) [] xs) = (\<lambda>e. gk (date e)) ` set xs"
  by (induction xs rule: rev_induct) (auto simp: keys_addEntry)

lemma groups_distinct: "distinct (map fst (foldl (addEntry gk) [] xs))"
  by (induction xs rule: rev_induct) (simp_all add: distinct_addEntry)

lemma groups_groupAt:
  "groupAt (foldl (addEntry gk) [] xs) k =
     \<lparr>income = bucketIncome gk k xs, expense = bucketExpense gk k xs\<rparr>"
proof (induction xs rule: rev_induct)
  case Nil
  show ?case by (simp add: groupAt_Nil bucketIncome_def bucketExpense_def)
next
  case (snoc x xs)
  then show ?case
    by (cases "etype x") (auto simp: groupAt_addEntry bucketIncome_def bucketExpense_def)
qed

lemma groupAt_keys:
  "k \<in> set (map fst (foldl (addEntry gk) [] xs)) \<Longrightarrow> map_of (foldl (addEntry gk) [] xs) k \<noteq> None"
  by (metis image_set map_of_eq_None_iff)

lemma groups_sorted_keys:
  "sort (map fst (foldl (addEntry gk) [] xs)) = sorted_list_of_set ((\<lambda>e. gk (date e)) ` set xs)"
proof -
  have "sorted_list_of_set (set (map fst (foldl (addEntry gk) [] xs)))
      = sort (remdups (map fst (foldl (addEntry gk) [] xs)))"
    by (rule sorted_list_of_set_sort_remdups)
  then show ?thesis
    using groups_distinct[of gk xs] groups_keys[of gk xs] by (simp add: distinct_remdups_id)
qed

lemma chartRows_length: "length (chartRows plans gs bal ks) = length ks"
  by (induction ks arbitrary: bal) (simp_all add: Let_def)

lemma chartRows_nth:
  "i < length ks \<Longrightarrow>
   chartRows plans gs bal ks ! i =
     \<lparr> period = ks ! i,
       balance = bal + sum_list (map (\<lambda>k. income (groupAt gs k) - expense (groupAt gs k)) (take (Suc i) ks)),
       r_income = income (groupAt gs (ks ! i)),
       r_expense = expense (groupAt gs (ks ! i)),
       planBalance = (case find (\<lambda>p. month p = ks ! i) plans of
                        Some p \<Rightarrow> numOrNull (targetBalance p) | None \<Rightarrow> None) \<rparr>"
proof (induction ks arbitrary: bal i)
  case Nil
  then show ?case by simp
next
  case (Cons k ks)
  show ?case
  proof (cases i)
    case 0
    then show ?thesis by (simp add: Let_def)
  next
    case (Suc j)
    with Cons.prems have "j < length ks" by simp
    from Cons.IH[OF this] Suc show ?thesis by (simp add: Let_def)
  qed
qed

lemma sum_by_key:
  "distinct ks \<Longrightarrow>
   sum_list (map (\<lambda>k. sum_list (map f (filter (\<lambda>e. key e = k) xs))) ks)
     = sum_list (map (f :: 'a \<Rightarrow> int) (filter (\<lambda>e. key e \<in> set ks) xs))"
proof (induction ks)
  case Nil
  then show ?case by simp
next
  case (Cons k ks)
  have split: "sum_list (map f (filter (\<lambda>e. key e = k \<or> key e \<in> set ks) xs))
      = sum_list (map f (filter (\<lambda>e. key e = k) xs)) + sum_list (map f (filter (\<lambda>e. key e \<in> set ks) xs))"
    using Cons.prems by (induction xs) auto
  from Cons show ?case by (simp add: split)
qed


lemma sum_filter_mset:
  "mset xs = mset ys \<Longrightarrow>
   sum_list (map (f :: 'a \<Rightarrow> int) (filter P xs)) = sum_list (map f (filter P ys))"
proof -
  assume eq: "mset xs = mset ys"
  have "sum_list (map f (filter P zs)) = sum_mset (image_mset f (filter_mset P (mset zs)))" for zs
    by (metis mset_filter mset_map sum_mset_sum_list)
  with eq show ?thesis by simp
qed

lemma bucket_signed:
  "bucketIncome gk k xs - bucketExpense gk k xs
     = sum_list (map signedAmount (filter (\<lambda>e. gk (date e) = k) xs))"
  by (induction xs) (auto simp: bucketIncome_def bucketExpense_def signedAmount_def not_Income)

lemma sorted_take_le:
  assumes "sorted ks" and "distinct ks" and "i < length ks" and "k \<in> set ks"
  shows "k \<in> set (take (Suc i) ks) \<longleftrightarrow> k \<le> ks ! i"
proof
  assume "k \<in> set (take (Suc i) ks)"
  then obtain j where j: "j < Suc i" "j < length ks" "k = ks ! j"
    by (auto simp: in_set_conv_nth)
  then show "k \<le> ks ! i"
    using assms(1,3) by (simp add: sorted_nth_mono)
next
  assume le: "k \<le> ks ! i"
  from assms(4) obtain j where j: "j < length ks" "k = ks ! j"
    by (auto simp: in_set_conv_nth)
  have "j \<le> i"
  proof (rule ccontr)
    assume "\<not> j \<le> i"
    then have "i < j" by simp
    then have "ks ! i \<le> ks ! j" using assms(1) j(1) by (simp add: sorted_nth_mono)
    with le j(2) have "ks ! i = ks ! j" by simp
    with assms(2,3) j(1) have "i = j" by (simp add: nth_eq_iff_index_eq)
    with \<open>i < j\<close> show False by simp
  qed
  then show "k \<in> set (take (Suc i) ks)"
    using j by (auto simp: in_set_conv_nth)
qed

lemma cumulative_sum:
  assumes ks: "ks = sorted_list_of_set ((\<lambda>e. gk (date e)) ` set xs)" and i: "i < length ks"
  shows "sum_list (map (\<lambda>k. bucketIncome gk k xs - bucketExpense gk k xs) (take (Suc i) ks))
       = sum_list (map signedAmount (filter (\<lambda>e. gk (date e) \<le> ks ! i) xs))"
proof -
  have fin: "finite ((\<lambda>e. gk (date e)) ` set xs)" by simp
  have sd: "sorted ks" "distinct ks" and set_ks: "set ks = (\<lambda>e. gk (date e)) ` set xs"
    using ks by simp_all
  have "sum_list (map (\<lambda>k. bucketIncome gk k xs - bucketExpense gk k xs) (take (Suc i) ks))
      = sum_list (map (\<lambda>k. sum_list (map signedAmount (filter (\<lambda>e. gk (date e) = k) xs))) (take (Suc i) ks))"
    by (simp only: bucket_signed)
  also have "\<dots> = sum_list (map signedAmount (filter (\<lambda>e. gk (date e) \<in> set (take (Suc i) ks)) xs))"
    by (rule sum_by_key) (simp add: sd)
  also have "filter (\<lambda>e. gk (date e) \<in> set (take (Suc i) ks)) xs = filter (\<lambda>e. gk (date e) \<le> ks ! i) xs"
  proof (rule filter_cong[OF refl])
    fix e assume "e \<in> set xs"
    then have "gk (date e) \<in> set ks" using set_ks by blast
    from sorted_take_le[OF sd i this]
    show "(gk (date e) \<in> set (take (Suc i) ks)) = (gk (date e) \<le> ks ! i)" .
  qed
  finally show ?thesis .
qed

lemma balanceChartData_rows:
  "balanceChartData tza entries per b plans =
     map (rowFor (groupKey tza per) b plans (filled entries))
       (sorted_list_of_set ((\<lambda>e. groupKey tza per (date e)) ` set (filled entries)))"
proof (cases "filled entries = []")
  case True
  then show ?thesis by (simp add: balanceChartData_def)
next
  case False
  define gk where "gk = groupKey tza per"
  define S where "S = sort_key date (filled entries)"
  define gs where "gs = foldl (addEntry gk) [] S"
  define ks where "ks = sorted_list_of_set ((\<lambda>e. gk (date e)) ` set S)"
  have perm: "mset S = mset (filled entries)" and setS: "set S = set (filled entries)"
    by (simp_all add: S_def)
  have keys: "sort (map fst gs) = ks"
    unfolding gs_def ks_def by (rule groups_sorted_keys)
  have data: "balanceChartData tza entries per b plans = chartRows plans gs (numOr0 b) ks"
    using False by (simp add: balanceChartData_def Let_def gs_def S_def gk_def keys[unfolded gs_def S_def gk_def])
  have at: "groupAt gs k = \<lparr>income = bucketIncome gk k S, expense = bucketExpense gk k S\<rparr>" for k
    unfolding gs_def by (rule groups_groupAt)
  have inc: "bucketIncome gk k S = bucketIncome gk k (filled entries)" for k
    unfolding bucketIncome_def by (rule sum_filter_mset[OF perm])
  have exp: "bucketExpense gk k S = bucketExpense gk k (filled entries)" for k
    unfolding bucketExpense_def by (rule sum_filter_mset[OF perm])
  have "chartRows plans gs (numOr0 b) ks = map (rowFor gk b plans (filled entries)) ks"
  proof (rule nth_equalityI)
    show "length (chartRows plans gs (numOr0 b) ks) = length (map (rowFor gk b plans (filled entries)) ks)"
      by (simp add: chartRows_length)
  next
    fix i assume "i < length (chartRows plans gs (numOr0 b) ks)"
    then have i: "i < length ks" by (simp add: chartRows_length)
    have "sum_list (map (\<lambda>k. income (groupAt gs k) - expense (groupAt gs k)) (take (Suc i) ks))
        = sum_list (map (\<lambda>k. bucketIncome gk k S - bucketExpense gk k S) (take (Suc i) ks))"
      by (simp add: at)
    also have "\<dots> = sum_list (map signedAmount (filter (\<lambda>e. gk (date e) \<le> ks ! i) S))"
      by (rule cumulative_sum[OF ks_def i])
    also have "\<dots> = sum_list (map signedAmount (filter (\<lambda>e. gk (date e) \<le> ks ! i) (filled entries)))"
      by (rule sum_filter_mset[OF perm])
    finally have cum: "sum_list (map (\<lambda>k. income (groupAt gs k) - expense (groupAt gs k)) (take (Suc i) ks))
        = sum_list (map signedAmount (filter (\<lambda>e. gk (date e) \<le> ks ! i) (filled entries)))" .
    from cum have cum': "sum_list (map (\<lambda>k. bucketIncome gk k (filled entries) - bucketExpense gk k (filled entries)) (take (Suc i) ks))
        = sum_list (map signedAmount (filter (\<lambda>e. gk (date e) \<le> ks ! i) (filled entries)))"
      by (simp only: at inc exp group.simps)
    show "chartRows plans gs (numOr0 b) ks ! i = map (rowFor gk b plans (filled entries)) ks ! i"
      using i by (simp add: chartRows_nth rowFor_def at inc exp cum')
  qed
  with data show ?thesis
    by (simp add: ks_def gk_def setS)
qed


section \<open>The worked example of the chart data\<close>

text \<open>
  Claim C1. For the two entries of the example (an expense of 1000 for lunch on 2024-01-05
  and an income of 5000 as salary on 2024-02-10), the initial balance 10000 and the period
  month, the chart data are exactly the rows for 2024-01 (balance 9000, income 0, expense
  1000) and 2024-02 (balance 14000, income 5000, expense 0), in that order. The four fields
  named in the example have these values whatever the plans are; without plans the fifth
  field, the plan balance, is null in both rows. The fields of the entries that the example
  leaves open are arbitrary.
\<close>

theorem example_series:
  "map (\<lambda>r. (period r, balance r, r_income r, r_expense r))
     (balanceChartData tza
        [\<lparr>entry_id = i1, date = ''2024-01-05'', etype = Expense, category = c1,
           description = ''lunch'', amount = JNum 1000, memo = m1, receipt = r1,
           receiptName = n1\<rparr>,
         \<lparr>entry_id = i2, date = ''2024-02-10'', etype = Income, category = c2,
           description = ''salary'', amount = JNum 5000, memo = m2, receipt = r2,
           receiptName = n2\<rparr>]
        Month (JNum 10000) plans)
   = [(''2024-01'', 9000, 0, 1000), (''2024-02'', 14000, 5000, 0)]
   \<and> balanceChartData tza
        [\<lparr>entry_id = i1, date = ''2024-01-05'', etype = Expense, category = c1,
           description = ''lunch'', amount = JNum 1000, memo = m1, receipt = r1,
           receiptName = n1\<rparr>,
         \<lparr>entry_id = i2, date = ''2024-02-10'', etype = Income, category = c2,
           description = ''salary'', amount = JNum 5000, memo = m2, receipt = r2,
           receiptName = n2\<rparr>]
        Month (JNum 10000) []
   = [\<lparr>period = ''2024-01'', balance = 9000, r_income = 0, r_expense = 1000, planBalance = None\<rparr>,
      \<lparr>period = ''2024-02'', balance = 14000, r_income = 5000, r_expense = 0, planBalance = None\<rparr>]"
  by (simp add: balanceChartData_def filled_def is_filled_def addEntry_def groupKey_def
      parseMonth_def numOr0_def groupAt_def)

section \<open>Summary totals\<close>



section \<open>Shape of the chart data\<close>

lemma rows_period:
  "map period (balanceChartData tza entries per b plans)
     = sorted_list_of_set ((\<lambda>e. groupKey tza per (date e)) ` set (filled entries))"
  by (simp add: balanceChartData_rows rowFor_def comp_def)






section \<open>Order of the entries\<close>







section \<open>The last balance of the chart and the current balance\<close>






section \<open>Draft entries\<close>

lemma filled_skip: "\<not> is_filled e \<Longrightarrow> filled (xs @ e # ys) = filled (xs @ ys)"
  by (simp add: filled_def)

lemma planRow_actualIncome:
  "v_actualIncome (planRow entries p) =
     sum_list (map (\<lambda>e. numOr0 (amount e))
       (filter (\<lambda>e. etype e = Income) (filter (\<lambda>e. parseMonth (date e) = month p) (filled entries))))"
  by (simp add: planRow_def Let_def foldl_add_sum_list)

lemma planRow_actualExpense:
  "v_actualExpense (planRow entries p) =
     sum_list (map (\<lambda>e. numOr0 (amount e))
       (filter (\<lambda>e. etype e = Expense) (filter (\<lambda>e. parseMonth (date e) = month p) (filled entries))))"
  by (simp add: planRow_def Let_def foldl_add_sum_list)

lemma planRow_filled: "filled es = filled es' \<Longrightarrow> planRow es p = planRow es' p"
  by (simp add: planRow_def)

lemma planVsActual_filled:
  assumes "filled es = filled es'"
  shows "planVsActual plans es = planVsActual plans es'"
proof -
  have "planRow es = planRow es'"
    by (rule ext) (rule planRow_filled[OF assms])
  then show ?thesis by (simp add: planVsActual_def)
qed

lemma balanceChartData_filled:
  "filled es = filled es' \<Longrightarrow> balanceChartData tza es per b plans = balanceChartData tza es' per b plans"
  by (simp add: balanceChartData_def)

lemma summarize_filled: "filled es = filled es' \<Longrightarrow> summarize es b = summarize es' b"
  by (simp add: summarize_def currentBalance_def totalIncome_def totalExpense_def)

text \<open>
  Claim C5. An entry is filled when its description is not empty or its amount is truthy
  (a non-empty string or a non-zero number); the draft entry of the specification, with
  the date 2024-03-01, an empty amount and an empty description, is not filled. An entry
  that is not filled can be added anywhere in the entry list without changing the summary
  totals, the chart data or the plan-versus-actual rows. The periods of the chart are
  exactly the period keys of the filled entries, and an added entry contributes its
  amount to the totals and to the actual sums of a plan row exactly when it is filled
  (and of the matching type and month).
\<close>

theorem draft_excluded:
  "\<not> is_filled \<lparr> entry_id = i, date = ''2024-03-01'', etype = t, category = c, description = [],
        amount = JStr [], memo = m, receipt = r, receiptName = n \<rparr>
   \<and> is_filled e = (description e \<noteq> [] \<or> truthy (amount e))
   \<and> (\<not> is_filled e \<longrightarrow>
        summarize (xs @ e # ys) b = summarize (xs @ ys) b
        \<and> balanceChartData tza (xs @ e # ys) per b plans = balanceChartData tza (xs @ ys) per b plans
        \<and> planVsActual plans (xs @ e # ys) = planVsActual plans (xs @ ys))
   \<and> set (map period (balanceChartData tza entries per b plans))
        = (\<lambda>e. groupKey tza per (date e)) ` {e \<in> set entries. is_filled e}
   \<and> s_totalIncome (summarize (xs @ e # ys) b)
        = s_totalIncome (summarize (xs @ ys) b)
          + (if is_filled e \<and> etype e = Income then numOr0 (amount e) else 0)
   \<and> s_totalExpense (summarize (xs @ e # ys) b)
        = s_totalExpense (summarize (xs @ ys) b)
          + (if is_filled e \<and> etype e = Expense then numOr0 (amount e) else 0)
   \<and> v_actualIncome (planRow (xs @ e # ys) p)
        = v_actualIncome (planRow (xs @ ys) p)
          + (if is_filled e \<and> parseMonth (date e) = month p \<and> etype e = Income
             then numOr0 (amount e) else 0)
   \<and> v_actualExpense (planRow (xs @ e # ys) p)
        = v_actualExpense (planRow (xs @ ys) p)
          + (if is_filled e \<and> parseMonth (date e) = month p \<and> etype e = Expense
             then numOr0 (amount e) else 0)"
proof (intro conjI impI)
  show "\<not> is_filled \<lparr> entry_id = i, date = ''2024-03-01'', etype = t, category = c, description = [],
        amount = JStr [], memo = m, receipt = r, receiptName = n \<rparr>"
    by (simp add: is_filled_def)
  show "is_filled e = (description e \<noteq> [] \<or> truthy (amount e))"
    by (simp add: is_filled_def)
  show "set (map period (balanceChartData tza entries per b plans))
        = (\<lambda>e. groupKey tza per (date e)) ` {e \<in> set entries. is_filled e}"
    by (simp add: rows_period filled_def)
  show "s_totalIncome (summarize (xs @ e # ys) b)
        = s_totalIncome (summarize (xs @ ys) b)
          + (if is_filled e \<and> etype e = Income then numOr0 (amount e) else 0)"
    by (simp add: summarize_def totalIncome_sum)
  show "s_totalExpense (summarize (xs @ e # ys) b)
        = s_totalExpense (summarize (xs @ ys) b)
          + (if is_filled e \<and> etype e = Expense then numOr0 (amount e) else 0)"
    by (simp add: summarize_def totalExpense_sum)
  show "v_actualIncome (planRow (xs @ e # ys) p)
        = v_actualIncome (planRow (xs @ ys) p)
          + (if is_filled e \<and> parseMonth (date e) = month p \<and> etype e = Income
             then numOr0 (amount e) else 0)"
    by (simp add: planRow_actualIncome filled_def)
  show "v_actualExpense (planRow (xs @ e # ys) p)
        = v_actualExpense (planRow (xs @ ys) p)
          + (if is_filled e \<and> parseMonth (date e) = month p \<and> etype e = Expense
             then numOr0 (amount e) else 0)"
    by (simp add: planRow_actualExpense filled_def)
next
  assume "\<not> is_filled e"
  then have f: "filled (xs @ e # ys) = filled (xs @ ys)"
    by (rule filled_skip)
  show "summarize (xs @ e # ys) b = summarize (xs @ ys) b"
    using f by (rule summarize_filled)
  show "balanceChartData tza (xs @ e # ys) per b plans = balanceChartData tza (xs @ ys) per b plans"
    using f by (rule balanceChartData_filled)
  show "planVsActual plans (xs @ e # ys) = planVsActual plans (xs @ ys)"
    using f by (rule planVsActual_filled)
qed

theorem draft_excluded_witness:
  "\<not> is_filled draft
   \<and> summarize ([lunch] @ draft # [salary]) (JNum 10000) = summarize ([lunch] @ [salary]) (JNum 10000)
   \<and> balanceChartData 0 ([lunch] @ draft # [salary]) Day (JNum 10000) [janPlan]
       = balanceChartData 0 ([lunch] @ [salary]) Day (JNum 10000) [janPlan]
   \<and> planVsActual [janPlan] ([lunch] @ draft # [salary]) = planVsActual [janPlan] ([lunch] @ [salary])
   \<and> s_totalIncome (summarize ([lunch] @ salary # [draft]) (JNum 10000))
       = s_totalIncome (summarize ([lunch] @ [draft]) (JNum 10000)) + 5000"
proof -
  have d: "\<not> is_filled draft" by (simp add: is_filled_def draft_def)
  have s: "is_filled salary \<and> etype salary = Income \<and> numOr0 (amount salary) = 5000"
    by (simp add: is_filled_def salary_def numOr0_def)
  show ?thesis
    using d s
      draft_excluded[where e = draft and xs = "[lunch]" and ys = "[salary]" and b = "JNum 10000"
        and tza = 0 and per = Day and plans = "[janPlan]"]
      draft_excluded[where e = salary and xs = "[lunch]" and ys = "[draft]" and b = "JNum 10000"]
    by simp
qed

section \<open>Plan versus actual rows\<close>






section \<open>Upsert of a plan\<close>

lemma findIndex_none: "(\<forall>x \<in> set xs. \<not> P x) \<Longrightarrow> findIndex P xs = - 1"
  by (induction xs) simp_all

lemma findIndex_unique:
  "distinct (map g xs) \<Longrightarrow> i < length xs \<Longrightarrow> g (xs ! i) = v \<Longrightarrow>
   findIndex (\<lambda>x. g x = v) xs = int i"
proof (induction xs arbitrary: i)
  case Nil
  then show ?case by simp
next
  case (Cons x xs)
  show ?case
  proof (cases i)
    case 0
    with Cons.prems show ?thesis by simp
  next
    case (Suc j)
    with Cons.prems have j: "j < length xs" "g (xs ! j) = v" and d: "distinct (map g xs)"
      by simp_all
    from j have "v \<in> g ` set xs" by (metis imageI nth_mem)
    with Cons.prems(1) have "g x \<noteq> v" by auto
    with Cons.IH[OF d j] Suc show ?thesis by (simp add: Let_def)
  qed
qed

lemma addPlan_rejected:
  "\<not> truthy (targetBalance f) \<Longrightarrow> \<not> truthy (plannedIncome f) \<Longrightarrow> \<not> truthy (plannedExpense f)
   \<Longrightarrow> addPlan f plans = plans"
  by (simp add: addPlan_def)

lemma addPlan_append:
  assumes "truthy (targetBalance f) \<or> truthy (plannedIncome f) \<or> truthy (plannedExpense f)"
    and "month f \<notin> set (map month plans)"
  shows "addPlan f plans = plans @ [f]"
proof -
  have "findIndex (\<lambda>p. month p = month f) plans = - 1"
    using assms(2) by (intro findIndex_none) (auto simp: image_iff)
  with assms(1) show ?thesis by (auto simp: addPlan_def)
qed

lemma addPlan_replace:
  assumes acc: "truthy (targetBalance f) \<or> truthy (plannedIncome f) \<or> truthy (plannedExpense f)"
    and mem: "month f \<in> set (map month plans)"
    and dist: "distinct (map month plans)"
  shows "addPlan f plans
       = map (\<lambda>pl. if month pl = month f then f\<lparr>plan_id := plan_id pl\<rparr> else pl) plans"
proof -
  from mem obtain k where k: "k < length plans" "month (plans ! k) = month f"
    by (auto simp: in_set_conv_nth)
  have ex: "findIndex (\<lambda>p. month p = month f) plans = int k"
    using dist k by (rule findIndex_unique)
  have same: "(i = k) = (month (plans ! i) = month f)" if "i < length plans" for i
  proof
    assume "i = k"
    with k show "month (plans ! i) = month f" by simp
  next
    assume "month (plans ! i) = month f"
    with k have "map month plans ! i = map month plans ! k" using that by simp
    moreover have "i < length (map month plans)" "k < length (map month plans)"
      using that k(1) by simp_all
    ultimately show "i = k" using dist by (simp only: nth_eq_iff_index_eq)
  qed
  have "addPlan f plans
      = map (\<lambda>(pl, i). if int i = int k then f\<lparr>plan_id := plan_id pl\<rparr> else pl)
          (zip plans [0..<length plans])"
    using acc ex by (auto simp: addPlan_def)
  also have "\<dots> = map (\<lambda>pl. if month pl = month f then f\<lparr>plan_id := plan_id pl\<rparr> else pl) plans"
    by (rule nth_equalityI) (simp_all add: same)
  finally show ?thesis .
qed

text \<open>
  Claim C8. A plan list with at most one plan per month keeps this property under
  \<open>addPlan\<close> and under the deletion of a plan. A form that is accepted for a month
  that has a plan replaces that plan in place: the list keeps its length, its ids and
  its months, the plan of that month takes the values of the form and keeps its id, and
  the other plans stay as they are. A form that is accepted for a new month is appended
  as one plan. A form that is rejected (no planned value filled in) changes nothing.
\<close>

theorem plan_upsert:
  assumes "distinct (map month plans)"
  shows "distinct (map month (addPlan f plans))
   \<and> distinct (map month (deletePlan pid plans))
   \<and> ((truthy (targetBalance f) \<or> truthy (plannedIncome f) \<or> truthy (plannedExpense f))
        \<and> month f \<in> set (map month plans) \<longrightarrow>
        length (addPlan f plans) = length plans
        \<and> map plan_id (addPlan f plans) = map plan_id plans
        \<and> map month (addPlan f plans) = map month plans
        \<and> (\<forall>i < length plans.
             addPlan f plans ! i
               = (if month (plans ! i) = month f then f\<lparr>plan_id := plan_id (plans ! i)\<rparr>
                  else plans ! i)))
   \<and> ((truthy (targetBalance f) \<or> truthy (plannedIncome f) \<or> truthy (plannedExpense f))
        \<and> month f \<notin> set (map month plans) \<longrightarrow> addPlan f plans = plans @ [f])
   \<and> (\<not> (truthy (targetBalance f) \<or> truthy (plannedIncome f) \<or> truthy (plannedExpense f))
        \<longrightarrow> addPlan f plans = plans)"
proof (intro conjI impI)
  show "distinct (map month (deletePlan pid plans))"
    using assms by (simp add: deletePlan_def distinct_map_filter)
  show "distinct (map month (addPlan f plans))"
  proof (cases "truthy (targetBalance f) \<or> truthy (plannedIncome f) \<or> truthy (plannedExpense f)")
    case False
    then show ?thesis using assms by (simp add: addPlan_rejected)
  next
    case acc: True
    show ?thesis
    proof (cases "month f \<in> set (map month plans)")
      case True
      have "map month (addPlan f plans) = map month plans"
        by (simp add: addPlan_replace[OF acc True assms] comp_def cong: map_cong)
      with assms show ?thesis by simp
    next
      case False
      with assms show ?thesis by (simp add: addPlan_append[OF acc False])
    qed
  qed
next
  assume a: "(truthy (targetBalance f) \<or> truthy (plannedIncome f) \<or> truthy (plannedExpense f))
        \<and> month f \<in> set (map month plans)"
  then have r: "addPlan f plans
       = map (\<lambda>pl. if month pl = month f then f\<lparr>plan_id := plan_id pl\<rparr> else pl) plans"
    using assms by (intro addPlan_replace) simp_all
  show "length (addPlan f plans) = length plans"
    by (simp add: r)
  show "map plan_id (addPlan f plans) = map plan_id plans"
    by (simp add: r comp_def cong: map_cong)
  show "map month (addPlan f plans) = map month plans"
    by (simp add: r comp_def cong: map_cong)
  show "\<forall>i < length plans.
             addPlan f plans ! i
               = (if month (plans ! i) = month f then f\<lparr>plan_id := plan_id (plans ! i)\<rparr>
                  else plans ! i)"
    by (simp add: r)
next
  assume "(truthy (targetBalance f) \<or> truthy (plannedIncome f) \<or> truthy (plannedExpense f))
        \<and> month f \<notin> set (map month plans)"
  then show "addPlan f plans = plans @ [f]"
    by (intro addPlan_append) simp_all
next
  assume "\<not> (truthy (targetBalance f) \<or> truthy (plannedIncome f) \<or> truthy (plannedExpense f))"
  then show "addPlan f plans = plans"
    by (intro addPlan_rejected) simp_all
qed

theorem plan_upsert_witness:
  "addPlan \<lparr>plan_id = ''p9'', month = ''2024-01'', targetBalance = JStr ''20000'',
             plannedIncome = JStr [], plannedExpense = JStr []\<rparr>
     [janPlan\<lparr>plan_id := ''p0'', month := ''2023-12''\<rparr>, janPlan]
   = [janPlan\<lparr>plan_id := ''p0'', month := ''2023-12''\<rparr>,
      \<lparr>plan_id = ''p1'', month = ''2024-01'', targetBalance = JStr ''20000'',
        plannedIncome = JStr [], plannedExpense = JStr []\<rparr>]
   \<and> addPlan \<lparr>plan_id = ''p9'', month = ''2024-02'', targetBalance = JStr ''20000'',
             plannedIncome = JStr [], plannedExpense = JStr []\<rparr>
     [janPlan\<lparr>plan_id := ''p0'', month := ''2023-12''\<rparr>, janPlan]
   = [janPlan\<lparr>plan_id := ''p0'', month := ''2023-12''\<rparr>, janPlan,
      \<lparr>plan_id = ''p9'', month = ''2024-02'', targetBalance = JStr ''20000'',
        plannedIncome = JStr [], plannedExpense = JStr []\<rparr>]
   \<and> distinct (map month (addPlan \<lparr>plan_id = ''p9'', month = ''2024-01'', targetBalance = JStr ''20000'',
             plannedIncome = JStr [], plannedExpense = JStr []\<rparr>
     [janPlan\<lparr>plan_id := ''p0'', month := ''2023-12''\<rparr>, janPlan]))"
proof -
  have d: "distinct (map month [janPlan\<lparr>plan_id := ''p0'', month := ''2023-12''\<rparr>, janPlan])"
    by (simp add: janPlan_def)
  show ?thesis
    using plan_upsert[OF d, of "\<lparr>plan_id = ''p9'', month = ''2024-01'', targetBalance = JStr ''20000'',
             plannedIncome = JStr [], plannedExpense = JStr []\<rparr>"]
      plan_upsert[OF d, of "\<lparr>plan_id = ''p9'', month = ''2024-02'', targetBalance = JStr ''20000'',
             plannedIncome = JStr [], plannedExpense = JStr []\<rparr>"]
    by (simp add: janPlan_def nth_equalityI addPlan_def)
qed

section \<open>Plan balance of a chart row\<close>










section \<open>Week keys\<close>





























end
